theory Spec2Isabelle
  imports Main "HOL-Library.Sublist"
begin

section \<open>Data model\<close>

text \<open>
  The configuration dict of \<^verbatim>\<open>load_config\<close> (add_subdomain.py, lines 47-55). Every
  value is a string read from the environment. check_old_records.py builds the same dict
  without the two DEFAULT entries and never reads them.
\<close>

record config =
  API_URL :: string
  API_USER :: string
  API_KEY :: string
  USERNAME :: string
  CLIENT_IP :: string
  DEFAULT_TTL :: string
  DEFAULT_IP :: string

text \<open>
  A host record is the dict built in \<^verbatim>\<open>get_dns_records\<close>. \<^verbatim>\<open>host.get("Name")\<close>,
  \<^verbatim>\<open>host.get("Type")\<close> and \<^verbatim>\<open>host.get("Address")\<close> are None when the attribute is
  absent; \<^verbatim>\<open>host.get("MXPref", "")\<close> is always a string; TTL is always a string on the
  write path and may be None on the inspection path.
\<close>

record host_record =
  HostName :: "string option"
  RecordType :: "string option"
  Address :: "string option"
  MXPref :: string
  TTL :: "string option"

text \<open>
  An \<^verbatim>\<open>xml.etree.ElementTree.Element\<close>: tag, attribute dict, text (None when the
  element has no character data before its first child) and the child elements.
\<close>

datatype element =
  Element (tag: string) (attrib: "(string \<times> string) list")
    (elem_text: "string option") (children: "element list")

text \<open>\<^verbatim>\<open>Element.get(key)\<close>: the attribute's value, or None.\<close>

definition elem_get :: "element \<Rightarrow> string \<Rightarrow> string option" where
  "elem_get e key = map_of (attrib e) key"

text \<open>
  Python's \<^verbatim>\<open>not result\<close> for the value returned by \<^verbatim>\<open>Element.find\<close>: None is falsy,
  and an Element is falsy exactly when it has no child elements (its truth value is that
  of \<^verbatim>\<open>len(element)\<close>).
\<close>

fun not_element :: "element option \<Rightarrow> bool" where
  "not_element None = True"
| "not_element (Some e) = (children e = [])"

text \<open>Truth value of an optional string: None and the empty string are falsy.\<close>

fun str_bool :: "string option \<Rightarrow> bool" where
  "str_bool None = False"
| "str_bool (Some s) = (s \<noteq> [])"

section \<open>The HTTP transport\<close>

text \<open>
  Query parameters are a dict in insertion order; a value may be None (a host attribute
  that was absent). A request is the URL with its parameters. The world is the list of
  requests issued so far, and the network is a function giving the outcome of the n-th
  request (counted from 0) of a run: either \<^verbatim>\<open>requests.exceptions.RequestException\<close>
  is raised, or a response comes back.
\<close>

type_synonym params = "(string \<times> string option) list"

type_synonym request = "string \<times> params"

type_synonym world = "request list"

record response =
  status_code :: int
  resp_text :: string

datatype outcome = RequestException | Response response

type_synonym transport = "nat \<Rightarrow> request \<Rightarrow> outcome"

datatype error =
  FailedAfterRetries int
  | UnexpectedExit
  | KeyError string
  | ParseError
  | ApiError "string option"
  | UpdateFailed string

text \<open>\<^verbatim>\<open>requests.get(url, params=params, timeout=30)\<close>: one request is issued.\<close>

definition requests_get ::
  "transport \<Rightarrow> string \<Rightarrow> params \<Rightarrow> world \<Rightarrow> outcome \<times> world" where
  "requests_get net url ps w = (net (length w) (url, ps), w @ [(url, ps)])"

text \<open>
  The body of \<^verbatim>\<open>for attempt in range(1, max_retries + 1)\<close> in
  \<^verbatim>\<open>call_namecheap_api_with_retries\<close> (add_subdomain.py, lines 97-119;
  check_old_records.py, lines 68-84, is the same code). The list is the remaining part
  of the range. Each pass first formats its log line with \<^verbatim>\<open>params['Command']\<close>, inside
  the try block: without that key a KeyError is raised before any request is issued, and
  it is not a RequestException, so it leaves the function. A response with status 200 is
  returned at once; any other response and a RequestException fall through to the check
  \<^verbatim>\<open>attempt < max_retries\<close>. Falling out of the loop raises
  "Unexpected exit from retry loop.".
\<close>

fun retry_loop ::
  "transport \<Rightarrow> string \<Rightarrow> params \<Rightarrow> int \<Rightarrow> int list \<Rightarrow> world
    \<Rightarrow> (error + response) \<times> world" where
  "retry_loop net url ps max_retries [] w = (Inl UnexpectedExit, w)"
| "retry_loop net url ps max_retries (attempt # rest) w =
     (case map_of ps ''Command'' of
        None \<Rightarrow> (Inl (KeyError ''Command''), w)
      | Some command \<Rightarrow>
          (case requests_get net url ps w of
             (Response r, w') \<Rightarrow>
               if status_code r = 200 then (Inr r, w')
               else if attempt < max_retries then retry_loop net url ps max_retries rest w'
               else (Inl (FailedAfterRetries max_retries), w')
           | (RequestException, w') \<Rightarrow>
               if attempt < max_retries then retry_loop net url ps max_retries rest w'
               else (Inl (FailedAfterRetries max_retries), w')))"

definition call_namecheap_api_with_retries ::
  "transport \<Rightarrow> string \<Rightarrow> params \<Rightarrow> int \<Rightarrow> world \<Rightarrow> (error + response) \<times> world" where
  "call_namecheap_api_with_retries net url ps max_retries w =
     retry_loop net url ps max_retries [1..max_retries] w"

text \<open>The default value of the parameter \<^verbatim>\<open>max_retries\<close>; no caller passes another.\<close>

definition default_max_retries :: int where
  "default_max_retries = 3"

section \<open>XML normalisation and queries\<close>

text \<open>
  \<^verbatim>\<open>strip_namespaces\<close>: a tag that contains a closing brace is replaced by what follows
  its first closing brace (\<^verbatim>\<open>node.tag.split('}', 1)[1]\<close>), for every node of the tree.
\<close>

definition strip_tag :: "string \<Rightarrow> string" where
  "strip_tag t =
     (if CHR ''}'' \<in> set t then tl (dropWhile (\<lambda>c. c \<noteq> CHR ''}'') t) else t)"

fun strip_namespaces :: "element \<Rightarrow> element" where
  "strip_namespaces (Element t a x cs) = Element (strip_tag t) a x (map strip_namespaces cs)"

text \<open>\<^verbatim>\<open>Element.iter()\<close>: the element and all its descendants, in document order.\<close>

fun iter :: "element \<Rightarrow> element list" where
  "iter (Element t a x cs) = Element t a x cs # concat (map iter cs)"

text \<open>
  \<^verbatim>\<open>root.findall(".//name")\<close>: the descendants of the root with that tag, in document
  order; the root itself is never among them.
\<close>

definition findall_descendants :: "string \<Rightarrow> element \<Rightarrow> element list" where
  "findall_descendants name root =
     filter (\<lambda>e. tag e = name) (concat (map iter (children root)))"

text \<open>\<^verbatim>\<open>root.find(".//name")\<close>: the first such descendant, or None.\<close>

definition find_descendant :: "string \<Rightarrow> element \<Rightarrow> element option" where
  "find_descendant name root =
     (case findall_descendants name root of [] \<Rightarrow> None | e # _ \<Rightarrow> Some e)"

text \<open>
  \<^verbatim>\<open>root.findall(".//DomainDNSGetHostsResult/host")\<close>: for each result node among the
  descendants, in document order, its direct children tagged host.
\<close>

definition findall_hosts :: "element \<Rightarrow> element list" where
  "findall_hosts root =
     concat (map (\<lambda>e. filter (\<lambda>c. tag c = ''host'') (children e))
       (findall_descendants ''DomainDNSGetHostsResult'' root))"

section \<open>Fetching the records\<close>

definition getHosts_params :: "config \<Rightarrow> string \<Rightarrow> string \<Rightarrow> params" where
  "getHosts_params cfg sld tld =
     [(''ApiUser'', Some (API_USER cfg)),
      (''ApiKey'', Some (API_KEY cfg)),
      (''UserName'', Some (USERNAME cfg)),
      (''Command'', Some ''namecheap.domains.dns.getHosts''),
      (''ClientIp'', Some (CLIENT_IP cfg)),
      (''SLD'', Some sld),
      (''TLD'', Some tld)]"

text \<open>
  The dict appended for one host element on the write path (add_subdomain.py, lines
  159-165): \<^verbatim>\<open>host.get("TTL", config["DEFAULT_TTL"])\<close>.
\<close>

definition host_entry :: "config \<Rightarrow> element \<Rightarrow> host_record" where
  "host_entry cfg host =
     \<lparr>HostName = elem_get host ''Name'',
      RecordType = elem_get host ''Type'',
      Address = elem_get host ''Address'',
      MXPref = (case elem_get host ''MXPref'' of None \<Rightarrow> '''' | Some m \<Rightarrow> m),
      TTL = (case elem_get host ''TTL'' of None \<Rightarrow> Some (DEFAULT_TTL cfg) | Some t \<Rightarrow> Some t)\<rparr>"

text \<open>
  The dict appended on the inspection path (check_old_records.py, lines 127-133):
  \<^verbatim>\<open>host.get("TTL")\<close>, with no default.
\<close>

definition host_entry_check :: "element \<Rightarrow> host_record" where
  "host_entry_check host =
     \<lparr>HostName = elem_get host ''Name'',
      RecordType = elem_get host ''Type'',
      Address = elem_get host ''Address'',
      MXPref = (case elem_get host ''MXPref'' of None \<Rightarrow> '''' | Some m \<Rightarrow> m),
      TTL = elem_get host ''TTL''\<rparr>"

text \<open>
  \<^verbatim>\<open>get_dns_records\<close> of add_subdomain.py (lines 130-167). \<^verbatim>\<open>ET.fromstring\<close> is the
  standard library's parser and is a parameter: None stands for its ParseError. The
  error check is \<^verbatim>\<open>if errors:\<close>, the list being non-empty.
\<close>

definition get_dns_records ::
  "transport \<Rightarrow> (string \<Rightarrow> element option) \<Rightarrow> config \<Rightarrow> string \<Rightarrow> string \<Rightarrow> world
    \<Rightarrow> (error + host_record list) \<times> world" where
  "get_dns_records net fromstring cfg sld tld w =
     (case call_namecheap_api_with_retries net (API_URL cfg) (getHosts_params cfg sld tld)
             default_max_retries w of
        (Inl e, w') \<Rightarrow> (Inl e, w')
      | (Inr r, w') \<Rightarrow>
          (case fromstring (resp_text r) of
             None \<Rightarrow> (Inl ParseError, w')
           | Some parsed \<Rightarrow>
               (let root = strip_namespaces parsed;
                    errors = findall_descendants ''Error'' root
                in if errors \<noteq> []
                   then (Inl (ApiError (elem_text (hd errors))), w')
                   else (Inr (map (host_entry cfg) (findall_hosts root)), w'))))"

text \<open>
  \<^verbatim>\<open>get_dns_records\<close> of check_old_records.py (lines 95-135). The error check is
  \<^verbatim>\<open>if errors and len(errors) > 0 and errors[0].text:\<close>.
\<close>

definition get_dns_records_check ::
  "transport \<Rightarrow> (string \<Rightarrow> element option) \<Rightarrow> config \<Rightarrow> string \<Rightarrow> string \<Rightarrow> world
    \<Rightarrow> (error + host_record list) \<times> world" where
  "get_dns_records_check net fromstring cfg sld tld w =
     (case call_namecheap_api_with_retries net (API_URL cfg) (getHosts_params cfg sld tld)
             default_max_retries w of
        (Inl e, w') \<Rightarrow> (Inl e, w')
      | (Inr r, w') \<Rightarrow>
          (case fromstring (resp_text r) of
             None \<Rightarrow> (Inl ParseError, w')
           | Some parsed \<Rightarrow>
               (let root = strip_namespaces parsed;
                    errors = findall_descendants ''Error'' root
                in if errors \<noteq> [] \<and> 0 < length errors \<and> str_bool (elem_text (hd errors))
                   then (Inl (ApiError (elem_text (hd errors))), w')
                   else (Inr (map host_entry_check (findall_hosts root)), w'))))"

section \<open>Pushing the records\<close>

text \<open>Decimal digits of a number, as the f-string \<^verbatim>\<open>f"HostName{i}"\<close> prints it.\<close>

fun str_of_nat :: "nat \<Rightarrow> string" where
  "str_of_nat n =
     (if n < 10 then [char_of (48 + n)]
      else str_of_nat (n div 10) @ [char_of (48 + n mod 10)])"

declare str_of_nat.simps [simp del]

text \<open>
  The five parameters written for the i-th host (add_subdomain.py, lines 186-190): an
  empty MXPref becomes "10", a TTL that is None or empty becomes the default.
\<close>

definition host_params :: "config \<Rightarrow> nat \<times> host_record \<Rightarrow> params" where
  "host_params cfg ih =
     (case ih of (i, host) \<Rightarrow>
       [(''HostName'' @ str_of_nat i, HostName host),
        (''RecordType'' @ str_of_nat i, RecordType host),
        (''Address'' @ str_of_nat i, Address host),
        (''MXPref'' @ str_of_nat i, Some (if MXPref host \<noteq> [] then MXPref host else ''10'')),
        (''TTL'' @ str_of_nat i,
           (if str_bool (TTL host) then TTL host else Some (DEFAULT_TTL cfg)))])"

text \<open>
  The parameters of the setHosts request. \<^verbatim>\<open>enumerate(hosts, start=1)\<close> numbers the
  hosts from 1; the keys written are pairwise distinct, so no assignment overwrites
  an earlier one.
\<close>

definition setHosts_params :: "config \<Rightarrow> string \<Rightarrow> string \<Rightarrow> host_record list \<Rightarrow> params" where
  "setHosts_params cfg sld tld hosts =
     [(''ApiUser'', Some (API_USER cfg)),
      (''ApiKey'', Some (API_KEY cfg)),
      (''UserName'', Some (USERNAME cfg)),
      (''Command'', Some ''namecheap.domains.dns.setHosts''),
      (''ClientIp'', Some (CLIENT_IP cfg)),
      (''SLD'', Some sld),
      (''TLD'', Some tld)]
     @ concat (map (host_params cfg) (zip [1 ..< Suc (length hosts)] hosts))"

text \<open>
  \<^verbatim>\<open>set_dns_records\<close> (add_subdomain.py, lines 169-202). The check is
  \<^verbatim>\<open>if (not result) or (result.get("IsSuccess") != "true"): raise\<close>.
\<close>

definition set_dns_records ::
  "transport \<Rightarrow> (string \<Rightarrow> element option) \<Rightarrow> config \<Rightarrow> string \<Rightarrow> string
    \<Rightarrow> host_record list \<Rightarrow> world \<Rightarrow> (error + unit) \<times> world" where
  "set_dns_records net fromstring cfg sld tld hosts w =
     (case call_namecheap_api_with_retries net (API_URL cfg)
             (setHosts_params cfg sld tld hosts) default_max_retries w of
        (Inl e, w') \<Rightarrow> (Inl e, w')
      | (Inr r, w') \<Rightarrow>
          (case fromstring (resp_text r) of
             None \<Rightarrow> (Inl ParseError, w')
           | Some parsed \<Rightarrow>
               (let root = strip_namespaces parsed;
                    result = find_descendant ''DomainDNSSetHostsResult'' root
                in
                if not_element result
                   \<or> (case result of None \<Rightarrow> True
                       | Some res \<Rightarrow> elem_get res ''IsSuccess'' \<noteq> Some ''true'')
                then (Inl (UpdateFailed (resp_text r)), w')
                else (Inr (), w'))))"

section \<open>Reconciliation and the orchestrator\<close>

text \<open>
  Step 5 of \<^verbatim>\<open>main\<close> (add_subdomain.py, lines 270-283): the list comprehension that
  drops every record with this HostName and RecordType "A", the new record, and the
  append.
\<close>

definition new_record :: "string \<Rightarrow> string \<Rightarrow> config \<Rightarrow> host_record" where
  "new_record subdomain ip_address cfg =
     \<lparr>HostName = Some subdomain,
      RecordType = Some ''A'',
      Address = Some ip_address,
      MXPref = '''',
      TTL = Some (DEFAULT_TTL cfg)\<rparr>"

definition updated_records ::
  "host_record list \<Rightarrow> string \<Rightarrow> string \<Rightarrow> config \<Rightarrow> host_record list" where
  "updated_records existing_records subdomain ip_address cfg =
     filter (\<lambda>r. \<not> (HostName r = Some subdomain \<and> RecordType r = Some ''A''))
       existing_records
     @ [new_record subdomain ip_address cfg]"

text \<open>
  Steps 4 to 6 of \<^verbatim>\<open>main\<close> (add_subdomain.py, lines 259-296), run in a fresh process
  (no request issued yet). The arguments are what steps 1 to 3 computed: the
  configuration, the three parts of the domain and the address. Any exception of the
  fetch or of the push ends in \<^verbatim>\<open>sys.exit(1)\<close>; otherwise main returns.
\<close>

datatype exit_status = Returned | SysExit int

definition main ::
  "transport \<Rightarrow> (string \<Rightarrow> element option) \<Rightarrow> config \<Rightarrow> string \<Rightarrow> string \<Rightarrow> string
    \<Rightarrow> string \<Rightarrow> exit_status \<times> world" where
  "main net fromstring cfg subdomain sld tld ip_address =
     (case get_dns_records net fromstring cfg sld tld [] of
        (Inl e, w1) \<Rightarrow> (SysExit 1, w1)
      | (Inr existing_records, w1) \<Rightarrow>
          (case set_dns_records net fromstring cfg sld tld
                  (updated_records existing_records subdomain ip_address cfg) w1 of
             (Inl e, w2) \<Rightarrow> (SysExit 1, w2)
           | (Inr u, w2) \<Rightarrow> (Returned, w2)))"

text \<open>The setHosts requests among the requests issued.\<close>

definition pushes :: "world \<Rightarrow> request list" where
  "pushes w =
     filter (\<lambda>rq. map_of (snd rq) ''Command'' = Some (Some ''namecheap.domains.dns.setHosts'')) w"

section \<open>Notions used to state the properties\<close>

text \<open>
  The response an attempt is accepted with: the loop returns a response only when its
  status code is 200; a RequestException and every other status are failed attempts.
\<close>

fun accepted :: "outcome \<Rightarrow> response option" where
  "accepted RequestException = None"
| "accepted (Response r) = (if status_code r = 200 then Some r else None)"

text \<open>The outcomes the network holds for the n requests numbered from i.\<close>

definition outcomes :: "transport \<Rightarrow> request \<Rightarrow> nat \<Rightarrow> nat \<Rightarrow> outcome list" where
  "outcomes net rq i n = map (\<lambda>j. net j rq) [i ..< i + n]"

text \<open>
  DNS names are compared without regard to the case of ASCII letters; two labels denote
  the same name when they agree after folding A-Z to a-z.
\<close>

definition ascii_lower :: "char \<Rightarrow> char" where
  "ascii_lower c =
     (if 65 \<le> (of_char c :: nat) \<and> (of_char c :: nat) \<le> 90
      then char_of ((of_char c :: nat) + 32) else c)"

definition same_dns_name :: "string \<Rightarrow> string \<Rightarrow> bool" where
  "same_dns_name a b = (map ascii_lower a = map ascii_lower b)"

section \<open>Concrete inputs\<close>

definition example_config :: config where
  "example_config =
     \<lparr>API_URL = ''https://api.namecheap.com/xml.response'',
      API_USER = ''user'', API_KEY = ''key'', USERNAME = ''user'',
      CLIENT_IP = ''192.0.2.1'', DEFAULT_TTL = ''1800'', DEFAULT_IP = ''1.2.3.4''\<rparr>"

definition example_request :: request where
  "example_request =
     (API_URL example_config, getHosts_params example_config ''example'' ''com'')"

definition upper_dev_record :: host_record where
  "upper_dev_record =
     \<lparr>HostName = Some ''DEV'', RecordType = Some ''A'', Address = Some ''1.1.1.1'',
      MXPref = ''10'', TTL = Some ''1800''\<rparr>"

text \<open>Networks: one that is always down, and ones that answer by position.\<close>

definition net_always_down :: transport where
  "net_always_down n rq = RequestException"

fun net_204_then_200 :: transport where
  "net_204_then_200 0 rq = Response \<lparr>status_code = 204, resp_text = ''first''\<rparr>"
| "net_204_then_200 (Suc n) rq = Response \<lparr>status_code = 200, resp_text = ''second''\<rparr>"

fun net_fail_fail_ok :: transport where
  "net_fail_fail_ok 0 rq = RequestException"
| "net_fail_fail_ok (Suc 0) rq = Response \<lparr>status_code = 503, resp_text = ''busy''\<rparr>"
| "net_fail_fail_ok (Suc (Suc n)) rq = Response \<lparr>status_code = 200, resp_text = ''third''\<rparr>"

fun net_fail_fail_204 :: transport where
  "net_fail_fail_204 0 rq = RequestException"
| "net_fail_fail_204 (Suc 0) rq = Response \<lparr>status_code = 503, resp_text = ''busy''\<rparr>"
| "net_fail_fail_204 (Suc (Suc n)) rq = Response \<lparr>status_code = 204, resp_text = ''third''\<rparr>"

text \<open>A network that answers every request with status 200 and the given body.\<close>

definition net_serving :: "string \<Rightarrow> transport" where
  "net_serving body n rq = Response \<lparr>status_code = 200, resp_text = body\<rparr>"

text \<open>
  Response bodies in the registrar's format, and the trees \<^verbatim>\<open>ET.fromstring\<close> builds
  for them: the default namespace is written in braces before every tag, attributes
  keep their order, and an element without character data has text None.
\<close>

definition ns :: "string \<Rightarrow> string" where
  "ns t = ''{http://api.namecheap.com/xml.response}'' @ t"

definition hosts_body :: string where
  \<open>hosts_body =
     ''<ApiResponse xmlns="http://api.namecheap.com/xml.response" Status="OK">''
     @ ''<Errors/><CommandResponse Type="namecheap.domains.dns.getHosts">''
     @ ''<DomainDNSGetHostsResult Domain="example.com">''
     @ ''<host Name="www" Type="A" Address="2.2.2.2" MXPref="10" TTL="300"/>''
     @ ''<host Name="dev" Type="A" Address="1.1.1.1"/></DomainDNSGetHostsResult>''
     @ ''</CommandResponse></ApiResponse>''\<close>

definition hosts_document :: element where
  "hosts_document =
     Element (ns ''ApiResponse'') [(''Status'', ''OK'')] None
       [Element (ns ''Errors'') [] None [],
        Element (ns ''CommandResponse'') [(''Type'', ''namecheap.domains.dns.getHosts'')] None
          [Element (ns ''DomainDNSGetHostsResult'') [(''Domain'', ''example.com'')] None
             [Element (ns ''host'')
                [(''Name'', ''www''), (''Type'', ''A''), (''Address'', ''2.2.2.2''),
                 (''MXPref'', ''10''), (''TTL'', ''300'')] None [],
              Element (ns ''host'')
                [(''Name'', ''dev''), (''Type'', ''A''), (''Address'', ''1.1.1.1'')] None []]]]"

definition error_body :: string where
  \<open>error_body =
     ''<ApiResponse xmlns="http://api.namecheap.com/xml.response" Status="ERROR">''
     @ ''<Errors><Error Number="1011102">API Key is invalid</Error></Errors>''
     @ ''</ApiResponse>''\<close>

definition error_document :: element where
  "error_document =
     Element (ns ''ApiResponse'') [(''Status'', ''ERROR'')] None
       [Element (ns ''Errors'') [] None
          [Element (ns ''Error'') [(''Number'', ''1011102'')] (Some ''API Key is invalid'') []]]"

definition empty_error_body :: string where
  \<open>empty_error_body =
     ''<ApiResponse xmlns="http://api.namecheap.com/xml.response" Status="OK">''
     @ ''<Errors><Error/></Errors>''
     @ ''<CommandResponse Type="namecheap.domains.dns.getHosts">''
     @ ''<DomainDNSGetHostsResult Domain="example.com">''
     @ ''<host Name="www" Type="A" Address="2.2.2.2" MXPref="10" TTL="300"/>''
     @ ''</DomainDNSGetHostsResult></CommandResponse></ApiResponse>''\<close>

definition empty_error_document :: element where
  "empty_error_document =
     Element (ns ''ApiResponse'') [(''Status'', ''OK'')] None
       [Element (ns ''Errors'') [] None [Element (ns ''Error'') [] None []],
        Element (ns ''CommandResponse'') [(''Type'', ''namecheap.domains.dns.getHosts'')] None
          [Element (ns ''DomainDNSGetHostsResult'') [(''Domain'', ''example.com'')] None
             [Element (ns ''host'')
                [(''Name'', ''www''), (''Type'', ''A''), (''Address'', ''2.2.2.2''),
                 (''MXPref'', ''10''), (''TTL'', ''300'')] None []]]]"

definition success_childless_body :: string where
  \<open>success_childless_body =
     ''<ApiResponse xmlns="http://api.namecheap.com/xml.response" Status="OK">''
     @ ''<Errors/><CommandResponse Type="namecheap.domains.dns.setHosts">''
     @ ''<DomainDNSSetHostsResult Domain="example.com" IsSuccess="true"/>''
     @ ''</CommandResponse></ApiResponse>''\<close>

definition success_childless_document :: element where
  "success_childless_document =
     Element (ns ''ApiResponse'') [(''Status'', ''OK'')] None
       [Element (ns ''Errors'') [] None [],
        Element (ns ''CommandResponse'') [(''Type'', ''namecheap.domains.dns.setHosts'')] None
          [Element (ns ''DomainDNSSetHostsResult'')
             [(''Domain'', ''example.com''), (''IsSuccess'', ''true'')] None []]]"

definition success_with_child_body :: string where
  \<open>success_with_child_body =
     ''<ApiResponse xmlns="http://api.namecheap.com/xml.response" Status="OK">''
     @ ''<Errors/><CommandResponse Type="namecheap.domains.dns.setHosts">''
     @ ''<DomainDNSSetHostsResult Domain="example.com" IsSuccess="true">''
     @ ''<Warnings/></DomainDNSSetHostsResult></CommandResponse></ApiResponse>''\<close>

definition success_with_child_document :: element where
  "success_with_child_document =
     Element (ns ''ApiResponse'') [(''Status'', ''OK'')] None
       [Element (ns ''Errors'') [] None [],
        Element (ns ''CommandResponse'') [(''Type'', ''namecheap.domains.dns.setHosts'')] None
          [Element (ns ''DomainDNSSetHostsResult'')
             [(''Domain'', ''example.com''), (''IsSuccess'', ''true'')] None
             [Element (ns ''Warnings'') [] None []]]]"

text \<open>
  A parser that agrees with \<^verbatim>\<open>ET.fromstring\<close> on the five bodies above and rejects
  every other text (as the real parser rejects "Service Unavailable").
\<close>

definition example_fromstring :: "string \<Rightarrow> element option" where
  "example_fromstring =
     map_of
       [(hosts_body, hosts_document),
        (error_body, error_document),
        (empty_error_body, empty_error_document),
        (success_childless_body, success_childless_document),
        (success_with_child_body, success_with_child_document)]"

text \<open>The setHosts request that pushes the single record dev -> 9.9.9.9.\<close>

definition example_push :: request where
  "example_push =
     (API_URL example_config,
      setHosts_params example_config ''example'' ''com''
        [new_record ''dev'' ''9.9.9.9'' example_config])"

section \<open>Reconciliation\<close>

text \<open>
  C1 (single-A invariant): for every input record list and every desired host name and
  address, the reconciled record list holds exactly one record whose HostName is the
  desired one and whose RecordType is "A", however many such records the input held.
\<close>

theorem single_A_invariant:
  "length (filter (\<lambda>r. HostName r = Some subdomain \<and> RecordType r = Some ''A'')
     (updated_records existing_records subdomain ip_address cfg)) = 1"
  by (simp add: updated_records_def new_record_def)

text \<open>
  C4 (order): the reconciled list is the kept records, that is the input records that do
  not have the desired HostName with type "A", in their original relative order, followed
  by the new record as the last element; on the empty input it is the new record alone.
\<close>

theorem reconcile_keeps_order_and_appends:
  "updated_records existing_records subdomain ip_address cfg =
     filter (\<lambda>r. \<not> (HostName r = Some subdomain \<and> RecordType r = Some ''A''))
       existing_records
     @ [new_record subdomain ip_address cfg]
   \<and> last (updated_records existing_records subdomain ip_address cfg)
       = new_record subdomain ip_address cfg
   \<and> butlast (updated_records existing_records subdomain ip_address cfg)
       = filter (\<lambda>r. \<not> (HostName r = Some subdomain \<and> RecordType r = Some ''A''))
           existing_records
   \<and> subseq (butlast (updated_records existing_records subdomain ip_address cfg))
        existing_records
   \<and> updated_records [] subdomain ip_address cfg = [new_record subdomain ip_address cfg]"
  by (simp add: updated_records_def)

text \<open>
  C5 (idempotence): reconciling twice with the same desired host name and address gives
  the same set of records as reconciling once; the two lists are even equal.
\<close>

theorem reconcile_idempotent:
  "set (updated_records (updated_records existing_records subdomain ip_address cfg)
          subdomain ip_address cfg)
     = set (updated_records existing_records subdomain ip_address cfg)
   \<and> updated_records (updated_records existing_records subdomain ip_address cfg)
          subdomain ip_address cfg
     = updated_records existing_records subdomain ip_address cfg"
  by (simp add: updated_records_def new_record_def)

text \<open>
  C9 (case-sensitive removal): an A record of the input whose HostName differs from the
  desired host name, but only in the case of its letters, is kept as it is; the output
  then holds at least two A records that denote the same DNS name.
\<close>

theorem case_sensitive_removal:
  assumes "r \<in> set existing_records"
    and "RecordType r = Some ''A''"
    and "HostName r = Some h"
    and "h \<noteq> subdomain"
    and "same_dns_name h subdomain"
  shows "r \<in> set (updated_records existing_records subdomain ip_address cfg)
    \<and> 2 \<le> length (filter
          (\<lambda>x. RecordType x = Some ''A''
             \<and> (case HostName x of None \<Rightarrow> False | Some n \<Rightarrow> same_dns_name n subdomain))
          (updated_records existing_records subdomain ip_address cfg))"
proof -
  let ?keep = "\<lambda>r. \<not> (HostName r = Some subdomain \<and> RecordType r = Some ''A'')"
  let ?same = "\<lambda>x. RecordType x = Some ''A''
     \<and> (case HostName x of None \<Rightarrow> False | Some n \<Rightarrow> same_dns_name n subdomain)"
  have new: "?same (new_record subdomain ip_address cfg)"
    by (simp add: new_record_def same_dns_name_def)
  have kept: "r \<in> set (filter ?keep existing_records)"
    using assms by simp
  moreover have "?same r"
    using assms by simp
  ultimately have "r \<in> set (filter ?same (filter ?keep existing_records))"
    by (simp del: filter_filter)
  then have pos: "0 < length (filter ?same (filter ?keep existing_records))"
    by (rule length_pos_if_in_set)
  have "length (filter ?same (updated_records existing_records subdomain ip_address cfg))
      = length (filter ?same (filter ?keep existing_records)) + 1"
    unfolding updated_records_def using new by (simp del: filter_filter)
  with pos have "2 \<le> length (filter ?same
      (updated_records existing_records subdomain ip_address cfg))"
    by linarith
  moreover have "r \<in> set (updated_records existing_records subdomain ip_address cfg)"
    unfolding updated_records_def using kept by simp
  ultimately show ?thesis by blast
qed

theorem case_sensitive_removal_witness:
  "upper_dev_record \<in> set (updated_records [upper_dev_record] ''dev'' ''9.9.9.9'' example_config)
   \<and> 2 \<le> length (filter
          (\<lambda>x. RecordType x = Some ''A''
             \<and> (case HostName x of None \<Rightarrow> False | Some n \<Rightarrow> same_dns_name n ''dev''))
          (updated_records [upper_dev_record] ''dev'' ''9.9.9.9'' example_config))"
proof -
  have same: "same_dns_name ''DEV'' ''dev''"
    by code_simp
  show ?thesis
    using case_sensitive_removal [of upper_dev_record "[upper_dev_record]" "''DEV''" "''dev''"
        "''9.9.9.9''" example_config] same
    by (simp add: upper_dev_record_def)
qed

section \<open>The retry loop\<close>

lemma accepted_None_iff:
  "accepted oc = None \<longleftrightarrow>
     oc = RequestException \<or> (\<exists>r. oc = Response r \<and> status_code r \<noteq> 200)"
  by (cases oc) auto

lemma accepted_Some_iff:
  "accepted oc = Some r \<longleftrightarrow> oc = Response r \<and> status_code r = 200"
  by (cases oc) auto

lemma upto_1_3: "[1..3::int] = [1, 2, 3]"
  by (simp add: upto_rec1)

text \<open>The parameters of both commands hold the key Command.\<close>

lemma command_getHosts:
  "map_of (getHosts_params cfg sld tld) ''Command'' \<noteq> None"
  by (simp add: getHosts_params_def)

lemma command_setHosts:
  "map_of (setHosts_params cfg sld tld hosts) ''Command'' \<noteq> None"
  by (simp add: setHosts_params_def)

lemma command_example_request:
  "map_of (snd example_request) ''Command'' \<noteq> None"
  by (simp add: example_request_def command_getHosts)

text \<open>One pass through the loop body, with and without the key Command.\<close>

lemma retry_step:
  "map_of ps ''Command'' \<noteq> None \<Longrightarrow>
   retry_loop net url ps m (a # rest) w =
     (case accepted (net (length w) (url, ps)) of
        Some r \<Rightarrow> (Inr r, w @ [(url, ps)])
      | None \<Rightarrow> if a < m then retry_loop net url ps m rest (w @ [(url, ps)])
                else (Inl (FailedAfterRetries m), w @ [(url, ps)]))"
  by (cases "net (length w) (url, ps)") (auto simp: requests_get_def)

lemma retry_step_no_command:
  "map_of ps ''Command'' = None \<Longrightarrow>
   retry_loop net url ps m (a # rest) w = (Inl (KeyError ''Command''), w)"
  by simp

text \<open>The call with three attempts, attempt by attempt.\<close>

lemma call_three_attempts:
  "map_of ps ''Command'' \<noteq> None \<Longrightarrow>
   call_namecheap_api_with_retries net url ps 3 w =
     (case accepted (net (length w) (url, ps)) of
        Some r \<Rightarrow> (Inr r, w @ [(url, ps)])
      | None \<Rightarrow>
          (case accepted (net (Suc (length w)) (url, ps)) of
             Some r \<Rightarrow> (Inr r, w @ [(url, ps), (url, ps)])
           | None \<Rightarrow>
               (case accepted (net (Suc (Suc (length w))) (url, ps)) of
                  Some r \<Rightarrow> (Inr r, w @ [(url, ps), (url, ps), (url, ps)])
                | None \<Rightarrow>
                    (Inl (FailedAfterRetries 3), w @ [(url, ps), (url, ps), (url, ps)]))))"
  unfolding call_namecheap_api_with_retries_def upto_1_3
  by (simp add: retry_step del: retry_loop.simps(2) split: option.splits)

lemma outcomes_0: "outcomes net rq i 0 = []"
  by (simp add: outcomes_def)

lemma outcomes_Suc: "outcomes net rq i (Suc n) = net i rq # outcomes net rq (Suc i) n"
  by (simp add: outcomes_def upt_conv_Cons del: upt_Suc)

lemma outcomes_3: "outcomes net rq i 3 = [net i rq, net (Suc i) rq, net (Suc (Suc i)) rq]"
  by (simp add: numeral_3_eq_3 outcomes_Suc outcomes_0)

text \<open>
  The loop over the attempts a, ..., m: the result is the first accepted response among
  the next n outcomes, after one request per failed attempt before it and one for itself;
  when none of the n outcomes is accepted, n requests are issued and the call fails.
\<close>

lemma retry_loop_upto:
  "map_of ps ''Command'' \<noteq> None \<Longrightarrow> a \<le> m \<Longrightarrow> n = nat (m - a + 1) \<Longrightarrow>
   retry_loop net url ps m [a..m] w =
     (case List.map_filter accepted (outcomes net (url, ps) (length w) n) of
        [] \<Rightarrow> (Inl (FailedAfterRetries m), w @ replicate n (url, ps))
      | r # _ \<Rightarrow>
          (Inr r,
           w @ replicate
                 (Suc (length (takeWhile (\<lambda>oc. accepted oc = None)
                                 (outcomes net (url, ps) (length w) n))))
                 (url, ps)))"
proof (induction n arbitrary: a w)
  case 0
  then show ?case by simp
next
  case (Suc n)
  note cmd = Suc.prems(1)
  have range: "[a..m] = a # [a + 1..m]"
    using Suc.prems(2) by (simp add: upto_rec1)
  show ?case
  proof (cases "accepted (net (length w) (url, ps))")
    case (Some r)
    then show ?thesis
      unfolding range outcomes_Suc
      by (simp add: retry_step [OF cmd] del: retry_loop.simps(2))
  next
    case None
    show ?thesis
    proof (cases "a < m")
      case True
      then have "a + 1 \<le> m" "n = nat (m - (a + 1) + 1)"
        using Suc.prems by auto
      from Suc.IH [OF cmd this, of "w @ [(url, ps)]"] None True show ?thesis
        unfolding range outcomes_Suc
        by (simp add: retry_step [OF cmd] replicate_app_Cons_same
            del: retry_loop.simps(2) split: list.splits)
    next
      case False
      then have "n = 0" using Suc.prems by auto
      with None False show ?thesis
        unfolding range outcomes_Suc
        by (simp add: retry_step [OF cmd] outcomes_0 del: retry_loop.simps(2))
    qed
  qed
qed

text \<open>Every request a call issues is the same request.\<close>

lemma retry_loop_log:
  "\<exists>k. snd (retry_loop net url ps m attempts w) = w @ replicate k (url, ps)"
proof (induction attempts arbitrary: w)
  case Nil
  have "snd (retry_loop net url ps m [] w) = w @ replicate 0 (url, ps)" by simp
  then show ?case by blast
next
  case (Cons a attempts)
  show ?case
  proof (cases "map_of ps ''Command'' = None")
    case True
    then have "snd (retry_loop net url ps m (a # attempts) w) = w @ replicate 0 (url, ps)"
      by (simp add: retry_step_no_command del: retry_loop.simps(2))
    then show ?thesis by blast
  next
    case cmd: False
    obtain k where k: "snd (retry_loop net url ps m attempts (w @ [(url, ps)]))
        = (w @ [(url, ps)]) @ replicate k (url, ps)"
      using Cons.IH by blast
    then have rec: "snd (retry_loop net url ps m attempts (w @ [(url, ps)]))
        = w @ replicate (Suc k) (url, ps)"
      by simp
    show ?thesis
    proof (cases "accepted (net (length w) (url, ps))")
      case (Some r)
      then have "snd (retry_loop net url ps m (a # attempts) w)
          = w @ replicate (Suc 0) (url, ps)"
        by (simp add: retry_step [OF cmd] del: retry_loop.simps(2))
      then show ?thesis by blast
    next
      case None
      show ?thesis
      proof (cases "a < m")
        case True
        with None rec have "snd (retry_loop net url ps m (a # attempts) w)
            = w @ replicate (Suc k) (url, ps)"
          by (simp add: retry_step [OF cmd] del: retry_loop.simps(2))
        then show ?thesis by blast
      next
        case False
        with None have "snd (retry_loop net url ps m (a # attempts) w)
            = w @ replicate (Suc 0) (url, ps)"
          by (simp add: retry_step [OF cmd] del: retry_loop.simps(2))
        then show ?thesis by blast
      qed
    qed
  qed
qed

lemma call_log:
  "\<exists>k. snd (call_namecheap_api_with_retries net url ps m w) = w @ replicate k (url, ps)"
  unfolding call_namecheap_api_with_retries_def by (rule retry_loop_log)

lemma call_default_error:
  "map_of ps ''Command'' \<noteq> None
   \<Longrightarrow> call_namecheap_api_with_retries net url ps default_max_retries w = (Inl e, w')
   \<Longrightarrow> e = FailedAfterRetries 3"
  by (auto simp: default_max_retries_def call_three_attempts split: option.splits)

text \<open>
  C3, as the code has it: with at least one attempt allowed, the client returns the first
  response with status 200 among the outcomes of its attempts, having issued one request
  for each failed attempt before it and one for the accepted one, and none after; a
  failed attempt is a RequestException or a response whose status is not 200, whichever
  of the two, counted by the one attempt counter; when no attempt within the budget is
  accepted the client has issued exactly that many requests and fails. (Parameters
  without the key Command, which no caller passes, end in a KeyError before any attempt.)
\<close>

theorem retry_policy:
  assumes "1 \<le> max_retries"
  shows "call_namecheap_api_with_retries net url ps max_retries w =
     (case map_of ps ''Command'' of
        None \<Rightarrow> (Inl (KeyError ''Command''), w)
      | Some command \<Rightarrow>
     (case List.map_filter accepted (outcomes net (url, ps) (length w) (nat max_retries)) of
        [] \<Rightarrow> (Inl (FailedAfterRetries max_retries), w @ replicate (nat max_retries) (url, ps))
      | r # _ \<Rightarrow>
          (Inr r,
           w @ replicate
                 (Suc (length (takeWhile (\<lambda>oc. accepted oc = None)
                                 (outcomes net (url, ps) (length w) (nat max_retries)))))
                 (url, ps))))"
proof (cases "map_of ps ''Command''")
  case None
  have "[1..max_retries] = 1 # [1 + 1..max_retries]"
    using assms by (simp add: upto_rec1)
  with None show ?thesis
    unfolding call_namecheap_api_with_retries_def
    by (simp add: retry_step_no_command del: retry_loop.simps(2))
next
  case (Some command)
  then have cmd: "map_of ps ''Command'' \<noteq> None" by simp
  show ?thesis
    unfolding call_namecheap_api_with_retries_def
    using assms Some retry_loop_upto [OF cmd, of 1 max_retries "nat max_retries" net url w]
    by simp
qed

theorem retry_policy_witness:
  "(1::int) \<le> 3
   \<and> call_namecheap_api_with_retries net_fail_fail_ok (fst example_request)
        (snd example_request) 3 []
      = (Inr \<lparr>status_code = 200, resp_text = ''third''\<rparr>,
         [example_request, example_request, example_request])"
proof -
  have h: "(1::int) \<le> 3" by simp
  obtain command where cmd: "map_of (snd example_request) ''Command'' = Some command"
    using command_example_request by blast
  have "call_namecheap_api_with_retries net_fail_fail_ok (fst example_request)
          (snd example_request) 3 []
        = (case map_of (snd example_request) ''Command'' of
             None \<Rightarrow> (Inl (KeyError ''Command''), [])
           | Some command \<Rightarrow>
          (case List.map_filter accepted
                  (outcomes net_fail_fail_ok (fst example_request, snd example_request)
                     (length ([] :: world)) (nat 3)) of
             [] \<Rightarrow> (Inl (FailedAfterRetries 3),
                    [] @ replicate (nat 3) (fst example_request, snd example_request))
           | r # _ \<Rightarrow>
               (Inr r,
                [] @ replicate
                  (Suc (length (takeWhile (\<lambda>oc. accepted oc = None)
                     (outcomes net_fail_fail_ok (fst example_request, snd example_request)
                        (length ([] :: world)) (nat 3)))))
                  (fst example_request, snd example_request))))"
    by (rule retry_policy [OF h])
  also have "\<dots> = (Inr \<lparr>status_code = 200, resp_text = ''third''\<rparr>,
         [example_request, example_request, example_request])"
    by (simp add: outcomes_3 cmd)
  finally show ?thesis using h by simp
qed

text \<open>
  C3, as the claim states it, fails: a response with status 204 is a 2xx response, and
  the client does not return it; it issues a second request and returns that response.
\<close>

theorem status_204_is_retried:
  "call_namecheap_api_with_retries net_204_then_200 (fst example_request) (snd example_request)
      default_max_retries []
     = (Inr \<lparr>status_code = 200, resp_text = ''second''\<rparr>, [example_request, example_request])
   \<and> call_namecheap_api_with_retries net_204_then_200 (fst example_request) (snd example_request)
      default_max_retries []
     \<noteq> (Inr \<lparr>status_code = 204, resp_text = ''first''\<rparr>, [example_request])"
  by (simp add: default_max_retries_def call_three_attempts [OF command_example_request])

text \<open>
  C6 (retry exhaustion), as the code has it: when all three attempts fail, each by a
  RequestException or by a response whose status is not 200, the client has issued
  exactly three requests and raises the failure that carries the number 3; when the first
  two attempts fail and the third response has status 200, it has issued exactly three
  requests and returns the third response.
\<close>

theorem retry_exhaustion:
  assumes "map_of ps ''Command'' \<noteq> None"
  shows "(accepted (net (length w) (url, ps)) = None
      \<and> accepted (net (Suc (length w)) (url, ps)) = None
      \<and> accepted (net (Suc (Suc (length w))) (url, ps)) = None
    \<longrightarrow> call_namecheap_api_with_retries net url ps default_max_retries w
          = (Inl (FailedAfterRetries 3), w @ replicate 3 (url, ps)))
   \<and> (accepted (net (length w) (url, ps)) = None
      \<and> accepted (net (Suc (length w)) (url, ps)) = None
      \<and> net (Suc (Suc (length w))) (url, ps) = Response r \<and> status_code r = 200
    \<longrightarrow> call_namecheap_api_with_retries net url ps default_max_retries w
          = (Inr r, w @ replicate 3 (url, ps)))"
  by (simp add: default_max_retries_def call_three_attempts [OF assms] numeral_3_eq_3)

theorem retry_exhaustion_witness:
  "call_namecheap_api_with_retries net_always_down (fst example_request) (snd example_request)
      default_max_retries []
     = (Inl (FailedAfterRetries 3), [example_request, example_request, example_request])
   \<and> call_namecheap_api_with_retries net_fail_fail_ok (fst example_request)
        (snd example_request) default_max_retries []
     = (Inr \<lparr>status_code = 200, resp_text = ''third''\<rparr>,
        [example_request, example_request, example_request])"
  using retry_exhaustion [OF command_example_request, of net_always_down "[]"
      "fst example_request"]
    retry_exhaustion [OF command_example_request, of net_fail_fail_ok "[]"
      "fst example_request" "\<lparr>status_code = 200, resp_text = ''third''\<rparr>"]
  by (simp add: net_always_down_def numeral_3_eq_3)

text \<open>
  C6, as the claim states it, fails: its source counts every 2xx response as a success.
  When the first two attempts fail and the third response has status 204, the client
  does not return that response; it has issued three requests and raises the failure.
\<close>

theorem third_attempt_204_is_not_returned:
  "call_namecheap_api_with_retries net_fail_fail_204 (fst example_request)
      (snd example_request) default_max_retries []
     = (Inl (FailedAfterRetries 3), [example_request, example_request, example_request])
   \<and> call_namecheap_api_with_retries net_fail_fail_204 (fst example_request)
      (snd example_request) default_max_retries []
     \<noteq> (Inr \<lparr>status_code = 204, resp_text = ''third''\<rparr>,
        [example_request, example_request, example_request])"
  by (simp add: default_max_retries_def call_three_attempts [OF command_example_request])

section \<open>The fetch phase and the orchestrator\<close>

lemma get_dns_records_log:
  "snd (get_dns_records net fromstring cfg sld tld w)
     = snd (call_namecheap_api_with_retries net (API_URL cfg) (getHosts_params cfg sld tld)
              default_max_retries w)"
  by (simp add: get_dns_records_def Let_def split: prod.splits sum.splits option.splits)

text \<open>The fetch fails in three ways only.\<close>

lemma get_dns_records_error:
  "get_dns_records net fromstring cfg sld tld w = (Inl e, w')
   \<Longrightarrow> e = FailedAfterRetries 3 \<or> e = ParseError \<or> (\<exists>t. e = ApiError t)"
  by (auto simp: get_dns_records_def Let_def dest: call_default_error [OF command_getHosts]
      split: prod.splits sum.splits option.splits if_splits)

text \<open>Each of the three ways makes the fetch fail.\<close>

lemma fetch_fails_on_exhausted_retries:
  "accepted (net (length w) (API_URL cfg, getHosts_params cfg sld tld)) = None
   \<Longrightarrow> accepted (net (Suc (length w)) (API_URL cfg, getHosts_params cfg sld tld)) = None
   \<Longrightarrow> accepted (net (Suc (Suc (length w))) (API_URL cfg, getHosts_params cfg sld tld)) = None
   \<Longrightarrow> fst (get_dns_records net fromstring cfg sld tld w) = Inl (FailedAfterRetries 3)"
  by (simp add: get_dns_records_def default_max_retries_def
      call_three_attempts [OF command_getHosts])

lemma fetch_fails_on_unparsable_body:
  "call_namecheap_api_with_retries net (API_URL cfg) (getHosts_params cfg sld tld)
      default_max_retries w = (Inr r, w')
   \<Longrightarrow> fromstring (resp_text r) = None
   \<Longrightarrow> get_dns_records net fromstring cfg sld tld w = (Inl ParseError, w')"
  by (simp add: get_dns_records_def)

lemma fetch_fails_on_error_element:
  "call_namecheap_api_with_retries net (API_URL cfg) (getHosts_params cfg sld tld)
      default_max_retries w = (Inr r, w')
   \<Longrightarrow> fromstring (resp_text r) = Some parsed
   \<Longrightarrow> findall_descendants ''Error'' (strip_namespaces parsed) = e # es
   \<Longrightarrow> get_dns_records net fromstring cfg sld tld w = (Inl (ApiError (elem_text e)), w')"
  by (simp add: get_dns_records_def Let_def)

lemma pushes_getHosts:
  "pushes (replicate k (url, getHosts_params cfg sld tld)) = []"
  by (simp add: pushes_def getHosts_params_def)

text \<open>
  C7 (no push after a failed fetch): whenever the fetch fails, main ends in sys.exit(1)
  and no setHosts request is among the requests it issued. The fetch fails with exhausted
  retries, an unparsable body or an Error element in the payload, and in no other way.
\<close>

theorem fetch_failure_never_pushes:
  assumes "fst (get_dns_records net fromstring cfg sld tld []) = Inl e"
  shows "fst (main net fromstring cfg subdomain sld tld ip_address) = SysExit 1
    \<and> pushes (snd (main net fromstring cfg subdomain sld tld ip_address)) = []
    \<and> (e = FailedAfterRetries 3 \<or> e = ParseError \<or> (\<exists>t. e = ApiError t))"
proof -
  obtain w1 where fetch: "get_dns_records net fromstring cfg sld tld [] = (Inl e, w1)"
    using assms by (cases "get_dns_records net fromstring cfg sld tld []") simp
  then have run: "main net fromstring cfg subdomain sld tld ip_address = (SysExit 1, w1)"
    by (simp add: main_def)
  obtain k where "snd (call_namecheap_api_with_retries net (API_URL cfg)
      (getHosts_params cfg sld tld) default_max_retries [])
      = [] @ replicate k (API_URL cfg, getHosts_params cfg sld tld)"
    using call_log by blast
  then have "w1 = replicate k (API_URL cfg, getHosts_params cfg sld tld)"
    using fetch get_dns_records_log [of net fromstring cfg sld tld "[]"] by simp
  then have "pushes w1 = []"
    by (simp only: pushes_getHosts)
  with run get_dns_records_error [OF fetch] show ?thesis by simp
qed

lemma example_fetch_network_down:
  "get_dns_records net_always_down example_fromstring example_config ''example'' ''com'' []
     = (Inl (FailedAfterRetries 3), [example_request, example_request, example_request])"
  by (simp add: get_dns_records_def default_max_retries_def
      call_three_attempts [OF command_getHosts] net_always_down_def example_request_def)

lemma example_fetch_unparsable:
  "get_dns_records (net_serving ''Service Unavailable'') example_fromstring example_config
      ''example'' ''com'' []
     = (Inl ParseError, [example_request])"
  by code_simp

lemma example_fetch_api_error:
  "get_dns_records (net_serving error_body) example_fromstring example_config
      ''example'' ''com'' []
     = (Inl (ApiError (Some ''API Key is invalid'')), [example_request])"
  by code_simp

theorem fetch_failure_never_pushes_witness:
  "main net_always_down example_fromstring example_config ''dev'' ''example'' ''com'' ''9.9.9.9''
     = (SysExit 1, [example_request, example_request, example_request])
   \<and> pushes [example_request, example_request, example_request] = []
   \<and> main (net_serving ''Service Unavailable'') example_fromstring example_config
        ''dev'' ''example'' ''com'' ''9.9.9.9''
     = (SysExit 1, [example_request])
   \<and> main (net_serving error_body) example_fromstring example_config
        ''dev'' ''example'' ''com'' ''9.9.9.9''
     = (SysExit 1, [example_request])
   \<and> pushes [example_request] = []"
proof -
  have a: "fst (get_dns_records net_always_down example_fromstring example_config
      ''example'' ''com'' []) = Inl (FailedAfterRetries 3)"
    by (simp add: example_fetch_network_down)
  have b: "fst (get_dns_records (net_serving ''Service Unavailable'') example_fromstring
      example_config ''example'' ''com'' []) = Inl ParseError"
    by (simp add: example_fetch_unparsable)
  have c: "fst (get_dns_records (net_serving error_body) example_fromstring example_config
      ''example'' ''com'' []) = Inl (ApiError (Some ''API Key is invalid''))"
    by (simp add: example_fetch_api_error)
  have ma: "snd (main net_always_down example_fromstring example_config ''dev'' ''example''
      ''com'' ''9.9.9.9'') = [example_request, example_request, example_request]"
    by (simp add: main_def example_fetch_network_down)
  have mb: "snd (main (net_serving ''Service Unavailable'') example_fromstring example_config
      ''dev'' ''example'' ''com'' ''9.9.9.9'') = [example_request]"
    by (simp add: main_def example_fetch_unparsable)
  have mc: "snd (main (net_serving error_body) example_fromstring example_config ''dev''
      ''example'' ''com'' ''9.9.9.9'') = [example_request]"
    by (simp add: main_def example_fetch_api_error)
  show ?thesis
    using fetch_failure_never_pushes [OF a, of "''dev''" "''9.9.9.9''"]
      fetch_failure_never_pushes [OF b, of "''dev''" "''9.9.9.9''"]
      fetch_failure_never_pushes [OF c, of "''dev''" "''9.9.9.9''"]
    by (simp add: ma mb mc prod_eq_iff)
qed

section \<open>Field defaults and the error check on the two paths\<close>

lemma host_entry_fields:
  "HostName (host_entry cfg host) = HostName (host_entry_check host)
   \<and> RecordType (host_entry cfg host) = RecordType (host_entry_check host)
   \<and> Address (host_entry cfg host) = Address (host_entry_check host)
   \<and> MXPref (host_entry cfg host) = MXPref (host_entry_check host)"
  by (simp add: host_entry_def host_entry_check_def)

lemma host_entry_ttl:
  "TTL (host_entry cfg host)
     = (case elem_get host ''TTL'' of None \<Rightarrow> Some (DEFAULT_TTL cfg) | Some t \<Rightarrow> Some t)
   \<and> TTL (host_entry_check host) = elem_get host ''TTL''"
  by (simp add: host_entry_def host_entry_check_def)

text \<open>
  C8 (TTL default): for a host element of the getHosts response without a TTL attribute,
  the record of the write path carries the configured default TTL and the record of the
  inspection path carries None; HostName, RecordType, Address and MXPref of every record
  are the same on both paths.
\<close>

theorem ttl_default_only_on_write_path:
  assumes call: "call_namecheap_api_with_retries net (API_URL cfg) (getHosts_params cfg sld tld)
        default_max_retries w = (Inr r, w')"
    and parse: "fromstring (resp_text r) = Some parsed"
    and no_errors: "findall_descendants ''Error'' (strip_namespaces parsed) = []"
    and host: "i < length (findall_hosts (strip_namespaces parsed))"
    and no_ttl: "elem_get (findall_hosts (strip_namespaces parsed) ! i) ''TTL'' = None"
  shows "\<exists>written inspected.
      get_dns_records net fromstring cfg sld tld w = (Inr written, w')
    \<and> get_dns_records_check net fromstring cfg sld tld w = (Inr inspected, w')
    \<and> length written = length (findall_hosts (strip_namespaces parsed))
    \<and> length inspected = length (findall_hosts (strip_namespaces parsed))
    \<and> TTL (written ! i) = Some (DEFAULT_TTL cfg)
    \<and> TTL (inspected ! i) = None
    \<and> (\<forall>j < length inspected.
          HostName (written ! j) = HostName (inspected ! j)
        \<and> RecordType (written ! j) = RecordType (inspected ! j)
        \<and> Address (written ! j) = Address (inspected ! j)
        \<and> MXPref (written ! j) = MXPref (inspected ! j))"
proof -
  let ?hosts = "findall_hosts (strip_namespaces parsed)"
  have written: "get_dns_records net fromstring cfg sld tld w
      = (Inr (map (host_entry cfg) ?hosts), w')"
    using call parse no_errors by (simp add: get_dns_records_def Let_def)
  have inspected: "get_dns_records_check net fromstring cfg sld tld w
      = (Inr (map host_entry_check ?hosts), w')"
    using call parse no_errors by (simp add: get_dns_records_check_def Let_def)
  have "TTL (map (host_entry cfg) ?hosts ! i) = Some (DEFAULT_TTL cfg)"
    using host no_ttl by (simp add: host_entry_ttl)
  moreover have "TTL (map host_entry_check ?hosts ! i) = None"
    using host no_ttl by (simp add: host_entry_ttl)
  moreover have "\<forall>j < length (map host_entry_check ?hosts).
        HostName (map (host_entry cfg) ?hosts ! j) = HostName (map host_entry_check ?hosts ! j)
      \<and> RecordType (map (host_entry cfg) ?hosts ! j)
          = RecordType (map host_entry_check ?hosts ! j)
      \<and> Address (map (host_entry cfg) ?hosts ! j) = Address (map host_entry_check ?hosts ! j)
      \<and> MXPref (map (host_entry cfg) ?hosts ! j) = MXPref (map host_entry_check ?hosts ! j)"
    by (simp add: host_entry_fields)
  ultimately show ?thesis
    using written inspected by simp
qed

lemma example_call_hosts:
  "call_namecheap_api_with_retries (net_serving hosts_body) (API_URL example_config)
      (getHosts_params example_config ''example'' ''com'') default_max_retries []
     = (Inr \<lparr>status_code = 200, resp_text = hosts_body\<rparr>, [example_request])"
  by (simp add: default_max_retries_def call_three_attempts [OF command_getHosts]
      net_serving_def example_request_def)

lemma example_parse_hosts:
  "example_fromstring (resp_text \<lparr>status_code = 200, resp_text = hosts_body\<rparr>)
     = Some hosts_document"
  by (simp add: example_fromstring_def)

lemma example_hosts_no_error:
  "findall_descendants ''Error'' (strip_namespaces hosts_document) = []"
  by code_simp

lemma example_hosts_found:
  "findall_hosts (strip_namespaces hosts_document)
     = [Element ''host''
          [(''Name'', ''www''), (''Type'', ''A''), (''Address'', ''2.2.2.2''),
           (''MXPref'', ''10''), (''TTL'', ''300'')] None [],
        Element ''host''
          [(''Name'', ''dev''), (''Type'', ''A''), (''Address'', ''1.1.1.1'')] None []]"
  by code_simp

lemma example_fetch_hosts:
  "get_dns_records (net_serving hosts_body) example_fromstring example_config
      ''example'' ''com'' []
     = (Inr [\<lparr>HostName = Some ''www'', RecordType = Some ''A'', Address = Some ''2.2.2.2'',
              MXPref = ''10'', TTL = Some ''300''\<rparr>,
            \<lparr>HostName = Some ''dev'', RecordType = Some ''A'', Address = Some ''1.1.1.1'',
              MXPref = '''', TTL = Some ''1800''\<rparr>],
        [example_request])"
  by code_simp

lemma example_inspect_hosts:
  "get_dns_records_check (net_serving hosts_body) example_fromstring example_config
      ''example'' ''com'' []
     = (Inr [\<lparr>HostName = Some ''www'', RecordType = Some ''A'', Address = Some ''2.2.2.2'',
              MXPref = ''10'', TTL = Some ''300''\<rparr>,
            \<lparr>HostName = Some ''dev'', RecordType = Some ''A'', Address = Some ''1.1.1.1'',
              MXPref = '''', TTL = None\<rparr>],
        [example_request])"
  by code_simp

theorem ttl_default_only_on_write_path_witness:
  "get_dns_records (net_serving hosts_body) example_fromstring example_config
      ''example'' ''com'' []
     = (Inr [\<lparr>HostName = Some ''www'', RecordType = Some ''A'', Address = Some ''2.2.2.2'',
              MXPref = ''10'', TTL = Some ''300''\<rparr>,
            \<lparr>HostName = Some ''dev'', RecordType = Some ''A'', Address = Some ''1.1.1.1'',
              MXPref = '''', TTL = Some ''1800''\<rparr>],
        [example_request])
   \<and> get_dns_records_check (net_serving hosts_body) example_fromstring example_config
      ''example'' ''com'' []
     = (Inr [\<lparr>HostName = Some ''www'', RecordType = Some ''A'', Address = Some ''2.2.2.2'',
              MXPref = ''10'', TTL = Some ''300''\<rparr>,
            \<lparr>HostName = Some ''dev'', RecordType = Some ''A'', Address = Some ''1.1.1.1'',
              MXPref = '''', TTL = None\<rparr>],
        [example_request])"
proof -
  have host: "1 < length (findall_hosts (strip_namespaces hosts_document))"
    by (simp add: example_hosts_found)
  have no_ttl: "elem_get (findall_hosts (strip_namespaces hosts_document) ! 1) ''TTL'' = None"
    by (simp add: example_hosts_found elem_get_def)
  show ?thesis
    using ttl_default_only_on_write_path
      [where fromstring = example_fromstring and parsed = hosts_document,
        OF example_call_hosts example_parse_hosts example_hosts_no_error host no_ttl]
    by (simp add: example_fetch_hosts example_inspect_hosts)
qed

text \<open>
  C10 (error check): on the inspection path the fetch fails only when the first Error
  element of the response has non-empty text; with an Error element whose text is absent
  or empty it returns the host records. On the write path the fetch fails as soon as
  the response holds any Error element.
\<close>

theorem error_check_differs_between_paths:
  assumes call: "call_namecheap_api_with_retries net (API_URL cfg) (getHosts_params cfg sld tld)
        default_max_retries w = (Inr r, w')"
    and parse: "fromstring (resp_text r) = Some parsed"
  shows "get_dns_records_check net fromstring cfg sld tld w =
      (case findall_descendants ''Error'' (strip_namespaces parsed) of
         [] \<Rightarrow> (Inr (map host_entry_check (findall_hosts (strip_namespaces parsed))), w')
       | e # _ \<Rightarrow>
           if str_bool (elem_text e) then (Inl (ApiError (elem_text e)), w')
           else (Inr (map host_entry_check (findall_hosts (strip_namespaces parsed))), w'))
    \<and> get_dns_records net fromstring cfg sld tld w =
      (case findall_descendants ''Error'' (strip_namespaces parsed) of
         [] \<Rightarrow> (Inr (map (host_entry cfg) (findall_hosts (strip_namespaces parsed))), w')
       | e # _ \<Rightarrow> (Inl (ApiError (elem_text e)), w'))"
  using call parse
  by (simp add: get_dns_records_check_def get_dns_records_def Let_def split: list.splits)

lemma example_call_empty_error:
  "call_namecheap_api_with_retries (net_serving empty_error_body) (API_URL example_config)
      (getHosts_params example_config ''example'' ''com'') default_max_retries []
     = (Inr \<lparr>status_code = 200, resp_text = empty_error_body\<rparr>, [example_request])"
  by (simp add: default_max_retries_def call_three_attempts [OF command_getHosts]
      net_serving_def example_request_def)

lemma example_parse_empty_error:
  "example_fromstring (resp_text \<lparr>status_code = 200, resp_text = empty_error_body\<rparr>)
     = Some empty_error_document"
  by code_simp

lemma example_empty_error_found:
  "findall_descendants ''Error'' (strip_namespaces empty_error_document)
     = [Element ''Error'' [] None []]"
  by code_simp

lemma example_empty_error_hosts:
  "map host_entry_check (findall_hosts (strip_namespaces empty_error_document))
     = [\<lparr>HostName = Some ''www'', RecordType = Some ''A'', Address = Some ''2.2.2.2'',
          MXPref = ''10'', TTL = Some ''300''\<rparr>]"
  by code_simp

theorem error_check_differs_between_paths_witness:
  "get_dns_records_check (net_serving empty_error_body) example_fromstring example_config
      ''example'' ''com'' []
     = (Inr [\<lparr>HostName = Some ''www'', RecordType = Some ''A'', Address = Some ''2.2.2.2'',
              MXPref = ''10'', TTL = Some ''300''\<rparr>],
        [example_request])
   \<and> get_dns_records (net_serving empty_error_body) example_fromstring example_config
      ''example'' ''com'' []
     = (Inl (ApiError None), [example_request])"
  using error_check_differs_between_paths
    [where fromstring = example_fromstring and parsed = empty_error_document,
      OF example_call_empty_error example_parse_empty_error]
  by (simp add: example_empty_error_found example_empty_error_hosts)

section \<open>The push\<close>

text \<open>
  What the check of \<^verbatim>\<open>set_dns_records\<close> accepts: the first result node must carry
  IsSuccess="true" and, because of \<^verbatim>\<open>not result\<close>, must also have a child element.
\<close>

lemma push_succeeds_iff:
  assumes "call_namecheap_api_with_retries net (API_URL cfg) (setHosts_params cfg sld tld hosts)
        default_max_retries w = (Inr r, w')"
    and "fromstring (resp_text r) = Some parsed"
  shows "set_dns_records net fromstring cfg sld tld hosts w = (Inr (), w') \<longleftrightarrow>
     (\<exists>res. find_descendant ''DomainDNSSetHostsResult'' (strip_namespaces parsed) = Some res
        \<and> children res \<noteq> [] \<and> elem_get res ''IsSuccess'' = Some ''true'')"
  using assms
  by (cases "find_descendant ''DomainDNSSetHostsResult'' (strip_namespaces parsed)")
    (auto simp: set_dns_records_def Let_def)

text \<open>
  C2 (push confirmation) says that the push succeeds whenever the response holds a
  DomainDNSSetHostsResult node with IsSuccess="true". On the registrar's documented
  success response, whose result node is an empty element, the code raises instead:
  \<^verbatim>\<open>find\<close> returns the node, and \<^verbatim>\<open>not result\<close> is true for an element without
  children. The same response with a child element inside the result node is accepted.
\<close>

theorem childless_success_node_is_rejected:
  "set_dns_records (net_serving success_childless_body) example_fromstring example_config
      ''example'' ''com'' [new_record ''dev'' ''9.9.9.9'' example_config] []
     = (Inl (UpdateFailed success_childless_body), [example_push])
   \<and> find_descendant ''DomainDNSSetHostsResult'' (strip_namespaces success_childless_document)
     = Some (Element ''DomainDNSSetHostsResult''
               [(''Domain'', ''example.com''), (''IsSuccess'', ''true'')] None [])
   \<and> set_dns_records (net_serving success_with_child_body) example_fromstring example_config
      ''example'' ''com'' [new_record ''dev'' ''9.9.9.9'' example_config] []
     = (Inr (), [example_push])"
  by code_simp

end
